theory Spec2Isabelle
  imports Main "HOL-Library.Product_Lexorder" "HOL-Library.Log_Nat"
begin

section \<open>Strings and character classes\<close>

text \<open>
  A Python \<open>str\<close> is a sequence of code points. The model uses \<^typ>\<open>string\<close> and reads a
  \<^typ>\<open>char\<close> as the code point of the same number (0 to 255), so \<^const>\<open>length\<close> counts
  what Python's \<open>len\<close> counts. The classes below are those of Python 3 (\<open>str.isspace\<close>,
  \<open>str.isalpha\<close>, \<open>str.isalnum\<close>, the cased characters, the regular expression classes
  \<open>\\d\<close> and \<open>\\s\<close>) on these 256 code points.
\<close>

definition cp :: "char \<Rightarrow> nat" where
  "cp c = of_char c"

definition is_digit :: "char \<Rightarrow> bool" where
  \<comment> \<open>\<open>str.isdecimal\<close>, the class \<open>\\d\<close>, and the digits of C\<close>
  "is_digit c = (48 \<le> cp c \<and> cp c \<le> 57)"

definition digit_val :: "char \<Rightarrow> nat" where
  "digit_val c = cp c - 48"

definition py_isspace :: "char \<Rightarrow> bool" where
  \<comment> \<open>\<open>str.isspace\<close>, the class \<open>\\s\<close>, and what \<open>str.strip()\<close> removes\<close>
  "py_isspace c = ((9 \<le> cp c \<and> cp c \<le> 13) \<or> (28 \<le> cp c \<and> cp c \<le> 32) \<or> cp c = 133 \<or> cp c = 160)"

definition py_isupper_char :: "char \<Rightarrow> bool" where
  "py_isupper_char c = ((65 \<le> cp c \<and> cp c \<le> 90) \<or> (192 \<le> cp c \<and> cp c \<le> 214) \<or> (216 \<le> cp c \<and> cp c \<le> 222))"

definition py_islower_char :: "char \<Rightarrow> bool" where
  "py_islower_char c = ((97 \<le> cp c \<and> cp c \<le> 122) \<or> cp c = 170 \<or> cp c = 181 \<or> cp c = 186
     \<or> (223 \<le> cp c \<and> cp c \<le> 246) \<or> (248 \<le> cp c \<and> cp c \<le> 255))"

definition py_isalpha_char :: "char \<Rightarrow> bool" where
  "py_isalpha_char c = (py_isupper_char c \<or> py_islower_char c)"

definition py_isalnum_char :: "char \<Rightarrow> bool" where
  \<comment> \<open>alphabetic, decimal, digit (superscripts) or numeric (vulgar fractions)\<close>
  "py_isalnum_char c = (py_isalpha_char c \<or> is_digit c \<or> cp c = 178 \<or> cp c = 179 \<or> cp c = 185
     \<or> (188 \<le> cp c \<and> cp c \<le> 190))"

definition py_isalnum :: "string \<Rightarrow> bool" where
  "py_isalnum s = (s \<noteq> [] \<and> list_all py_isalnum_char s)"

definition py_isalpha :: "string \<Rightarrow> bool" where
  "py_isalpha s = (s \<noteq> [] \<and> list_all py_isalpha_char s)"

definition py_isupper :: "string \<Rightarrow> bool" where
  \<comment> \<open>no lowercase character and at least one uppercase character\<close>
  "py_isupper s = (list_all (\<lambda>c. \<not> py_islower_char c) s \<and> list_ex py_isupper_char s)"

definition strip :: "string \<Rightarrow> string" where
  "strip s = rev (dropWhile py_isspace (rev (dropWhile py_isspace s)))"

fun join :: "string \<Rightarrow> string list \<Rightarrow> string" where
  "join sep [] = []"
| "join sep [x] = x"
| "join sep (x # y # ys) = x @ sep @ join sep (y # ys)"

fun nat_of_digits_acc :: "nat \<Rightarrow> string \<Rightarrow> nat" where
  "nat_of_digits_acc acc [] = acc"
| "nat_of_digits_acc acc (c # cs) = nat_of_digits_acc (10 * acc + digit_val c) cs"

definition nat_of_digits :: "string \<Rightarrow> nat" where
  "nat_of_digits s = nat_of_digits_acc 0 s"

fun str_nat :: "nat \<Rightarrow> string" where
  "str_nat n = (if n < 10 then [char_of (48 + n)] else str_nat (n div 10) @ [char_of (48 + n mod 10)])"

definition str_int :: "int \<Rightarrow> string" where
  \<comment> \<open>\<open>str\<close> of a Python \<open>int\<close>\<close>
  "str_int i = (if i < 0 then CHR ''-'' # str_nat (nat (- i)) else str_nat (nat i))"

section \<open>Field validators\<close>

definition is_valid_flight_id :: "string \<Rightarrow> bool" where
  "is_valid_flight_id v = (py_isalnum v \<and> 2 \<le> length v \<and> length v \<le> 8)"

definition is_valid_airport_code :: "string \<Rightarrow> bool" where
  "is_valid_airport_code v = (length v = 3 \<and> py_isalpha v \<and> py_isupper v)"

subsection \<open>\<open>datetime.strptime(value, "%Y-%m-%d %H:%M")\<close>\<close>

text \<open>
  \<open>strptime\<close> turns the format into the regular expression
  \<^verbatim>\<open>(\d\d\d\d)-(1[0-2]|0[1-9]|[1-9])-(3[0-1]|[1-2]\d|0[1-9]|[1-9]| [1-9])\s+(2[0-3]|[0-1]\d|\d):([0-5]\d|\d)\<close>,
  matches it at the start of the string, fails when text remains after the match, and then
  builds the date, failing for the year 0 and for a day the month does not have. A regular
  expression is modelled by the list of its matches in the order the backtracking matcher
  tries them, each with the text left over; the head of the list is the match found.
\<close>

type_synonym 'a rx = "string \<Rightarrow> ('a \<times> string) list"

definition rx_lit :: "char \<Rightarrow> unit rx" where
  "rx_lit c s = (case s of [] \<Rightarrow> [] | x # r \<Rightarrow> if x = c then [((), r)] else [])"

definition rx_one :: "(nat \<Rightarrow> bool) \<Rightarrow> nat rx" where
  \<comment> \<open>one digit whose value satisfies \<open>P\<close>\<close>
  "rx_one P s = (case s of [] \<Rightarrow> [] | x # r \<Rightarrow> if is_digit x \<and> P (digit_val x) then [(digit_val x, r)] else [])"

definition rx_two :: "(nat \<Rightarrow> bool) \<Rightarrow> (nat \<Rightarrow> bool) \<Rightarrow> nat rx" where
  \<comment> \<open>two digits, the first satisfying \<open>P\<close> and the second \<open>Q\<close>, read as a number\<close>
  "rx_two P Q s = List.bind (rx_one P s) (\<lambda>(a, r). List.bind (rx_one Q r) (\<lambda>(b, r'). [(10 * a + b, r')]))"

definition any_digit :: "nat \<Rightarrow> bool" where
  "any_digit d = True"

definition rx_Y :: "nat rx" where
  "rx_Y s = List.bind (rx_two any_digit any_digit s) (\<lambda>(a, r). List.bind (rx_two any_digit any_digit r) (\<lambda>(b, r'). [(100 * a + b, r')]))"

definition rx_m :: "nat rx" where
  "rx_m s = rx_two (\<lambda>a. a = 1) (\<lambda>b. b \<le> 2) s @ rx_two (\<lambda>a. a = 0) (\<lambda>b. 1 \<le> b) s @ rx_one (\<lambda>a. 1 \<le> a) s"

definition rx_d :: "nat rx" where
  "rx_d s = rx_two (\<lambda>a. a = 3) (\<lambda>b. b \<le> 1) s @ rx_two (\<lambda>a. 1 \<le> a \<and> a \<le> 2) any_digit s
     @ rx_two (\<lambda>a. a = 0) (\<lambda>b. 1 \<le> b) s @ rx_one (\<lambda>a. 1 \<le> a) s
     @ List.bind (rx_lit CHR '' '' s) (\<lambda>(_, r). rx_one (\<lambda>a. 1 \<le> a) r)"

definition rx_H :: "nat rx" where
  "rx_H s = rx_two (\<lambda>a. a = 2) (\<lambda>b. b \<le> 3) s @ rx_two (\<lambda>a. a \<le> 1) any_digit s @ rx_one any_digit s"

definition rx_M :: "nat rx" where
  "rx_M s = rx_two (\<lambda>a. a \<le> 5) any_digit s @ rx_one any_digit s"

fun rx_ws_plus :: "unit rx" where
  \<comment> \<open>\<open>\\s+\<close> is greedy: the longest run first, then the shorter ones\<close>
  "rx_ws_plus [] = []"
| "rx_ws_plus (c # r) = (if py_isspace c then rx_ws_plus r @ [((), r)] else [])"

type_synonym datetime = "nat \<times> nat \<times> nat \<times> nat \<times> nat"

definition format_regex :: "datetime rx" where
  "format_regex s =
     List.bind (rx_Y s) (\<lambda>(y, s1).
     List.bind (rx_lit CHR ''-'' s1) (\<lambda>(_, s2).
     List.bind (rx_m s2) (\<lambda>(mo, s3).
     List.bind (rx_lit CHR ''-'' s3) (\<lambda>(_, s4).
     List.bind (rx_d s4) (\<lambda>(d, s5).
     List.bind (rx_ws_plus s5) (\<lambda>(_, s6).
     List.bind (rx_H s6) (\<lambda>(h, s7).
     List.bind (rx_lit CHR '':'' s7) (\<lambda>(_, s8).
     List.bind (rx_M s8) (\<lambda>(mi, s9). [((y, mo, d, h, mi), s9)])))))))))"

definition is_leap :: "nat \<Rightarrow> bool" where
  "is_leap y = (y mod 4 = 0 \<and> (y mod 100 \<noteq> 0 \<or> y mod 400 = 0))"

definition days_in_month :: "nat \<Rightarrow> nat \<Rightarrow> nat" where
  "days_in_month y m =
     (if m = 2 then (if is_leap y then 29 else 28)
      else if m = 4 \<or> m = 6 \<or> m = 9 \<or> m = 11 then 30 else 31)"

definition strptime :: "string \<Rightarrow> datetime option" where
  \<comment> \<open>\<open>None\<close> stands for the \<open>ValueError\<close> that \<open>strptime\<close> raises on a string\<close>
  "strptime s =
     (case format_regex s of
        [] \<Rightarrow> None
      | ((y, mo, d, h, mi), rest) # _ \<Rightarrow>
          if rest \<noteq> [] then None
          else if y = 0 \<or> days_in_month y mo < d then None
          else Some (y, mo, d, h, mi))"

definition parse_datetime :: "string \<Rightarrow> datetime option" where
  "parse_datetime v = strptime v"

subsection \<open>Python floats\<close>

text \<open>
  A Python \<open>float\<close> is an IEEE 754 binary64 number: a finite value (a rational here), the
  negative zero, an infinity, or a NaN. Comparisons with a NaN are false.
\<close>

datatype pyfloat = NaN | NegInf | Fin rat | NegZero | PosInf

fun rank :: "pyfloat \<Rightarrow> int \<times> rat" where
  "rank NegInf = (-1, 0)"
| "rank (Fin q) = (0, q)"
| "rank NegZero = (0, 0)"
| "rank PosInf = (1, 0)"
| "rank NaN = (2, 0)"

definition float_lt :: "pyfloat \<Rightarrow> pyfloat \<Rightarrow> bool" where
  "float_lt a b = (a \<noteq> NaN \<and> b \<noteq> NaN \<and> rank a < rank b)"

definition float_gt :: "pyfloat \<Rightarrow> pyfloat \<Rightarrow> bool" where
  "float_gt a b = float_lt b a"

definition float_eq :: "pyfloat \<Rightarrow> pyfloat \<Rightarrow> bool" where
  "float_eq a b = (a \<noteq> NaN \<and> b \<noteq> NaN \<and> rank a = rank b)"

definition float_le :: "pyfloat \<Rightarrow> pyfloat \<Rightarrow> bool" where
  "float_le a b = (float_lt a b \<or> float_eq a b)"

definition pow2 :: "int \<Rightarrow> rat" where
  "pow2 e = (if 0 \<le> e then 2 ^ nat e else 1 / 2 ^ nat (- e))"

definition pow10 :: "int \<Rightarrow> rat" where
  "pow10 e = (if 0 \<le> e then 10 ^ nat e else 1 / 10 ^ nat (- e))"

definition round_half_even :: "rat \<Rightarrow> int" where
  "round_half_even x =
     (let f = \<lfloor>x\<rfloor>; r = x - of_int f
      in if r < 1 / 2 then f else if 1 / 2 < r then f + 1 else if even f then f else f + 1)"

definition binade :: "rat \<Rightarrow> int" where
  \<comment> \<open>for \<open>0 < q\<close>, the exponent \<open>e\<close> with \<open>2 ^ e \<le> q < 2 ^ (e + 1)\<close>\<close>
  "binade q =
     (let (a, b) = quotient_of q;
          e0 = int (floorlog 2 (nat a)) - int (floorlog 2 (nat b))
      in if pow2 e0 \<le> q then e0 else e0 - 1)"

definition double_of_pos :: "rat \<Rightarrow> rat option" where
  \<comment> \<open>the binary64 number nearest to \<open>0 < q\<close>, ties to even; \<open>None\<close> when it is out of range\<close>
  "double_of_pos q =
     (let e = max (binade q) (- 1022);
          ulp = pow2 (e - 52);
          r = of_int (round_half_even (q / ulp)) * ulp
      in if pow2 1024 \<le> r then None else Some r)"

definition double_of_signed :: "bool \<Rightarrow> rat \<Rightarrow> pyfloat" where
  \<comment> \<open>the correctly rounded value of a sign and a magnitude \<open>0 \<le> q\<close>, as \<open>strtod\<close> gives it\<close>
  "double_of_signed neg q =
     (if q = 0 then (if neg then NegZero else Fin 0)
      else case double_of_pos q of
             None \<Rightarrow> (if neg then NegInf else PosInf)
           | Some r \<Rightarrow> if r = 0 then (if neg then NegZero else Fin 0)
                       else Fin (if neg then - r else r))"

subsection \<open>\<open>float(value)\<close> on a string\<close>

definition c_isspace :: "char \<Rightarrow> bool" where
  \<comment> \<open>\<open>Py_ISSPACE\<close>\<close>
  "c_isspace c = ((9 \<le> cp c \<and> cp c \<le> 13) \<or> cp c = 32)"

fun transform_decimal_and_space :: "string \<Rightarrow> string" where
  \<comment> \<open>a non-ASCII space becomes a blank; at any other non-ASCII character the copy ends with \<open>?\<close>\<close>
  "transform_decimal_and_space [] = []"
| "transform_decimal_and_space (c # r) =
     (if cp c < 127 then c # transform_decimal_and_space r
      else if py_isspace c then CHR '' '' # transform_decimal_and_space r
      else [CHR ''?''])"

definition to_ascii :: "string \<Rightarrow> string" where
  "to_ascii s = (if list_all (\<lambda>c. cp c < 128) s then s else transform_decimal_and_space s)"

fun underscores :: "char \<Rightarrow> string \<Rightarrow> string option" where
  \<comment> \<open>an underscore is allowed only between two digits; the result is the text without them\<close>
  "underscores prev [] = (if prev = CHR ''_'' then None else Some [])"
| "underscores prev (p # ps) =
     (if p = CHR ''_'' then (if is_digit prev then underscores p ps else None)
      else if prev = CHR ''_'' \<and> \<not> is_digit p then None
      else map_option ((#) p) (underscores p ps))"

definition take_sign :: "string \<Rightarrow> bool \<times> string" where
  "take_sign s =
     (case s of [] \<Rightarrow> (False, s)
      | c # r \<Rightarrow> if c = CHR ''-'' then (True, r) else if c = CHR ''+'' then (False, r) else (False, s))"

definition take_exponent :: "string \<Rightarrow> int \<times> string" where
  \<comment> \<open>\<open>e\<close> or \<open>E\<close>, an optional sign and at least one digit; otherwise nothing is consumed\<close>
  "take_exponent s =
     (case s of [] \<Rightarrow> (0, s)
      | c # r \<Rightarrow>
          if c = CHR ''e'' \<or> c = CHR ''E'' then
            (let (eneg, r1) = take_sign r; ds = takeWhile is_digit r1
             in if ds = [] then (0, s)
                else ((if eneg then - int (nat_of_digits ds) else int (nat_of_digits ds)),
                      dropWhile is_digit r1))
          else (0, s))"

definition dg_strtod :: "string \<Rightarrow> (pyfloat \<times> string) option" where
  \<comment> \<open>the decimal number at the start of the text and the text after it; \<open>None\<close> when there is no digit\<close>
  "dg_strtod s0 =
     (let (neg, s1) = take_sign s0;
          ip = takeWhile is_digit s1;
          s2 = dropWhile is_digit s1;
          (fp, s3) = (case s2 of [] \<Rightarrow> ([], s2)
                      | c # r \<Rightarrow> if c = CHR ''.'' then (takeWhile is_digit r, dropWhile is_digit r)
                                 else ([], s2))
      in if ip = [] \<and> fp = [] then None
         else (let (e, s4) = take_exponent s3
               in Some (double_of_signed neg
                          (of_nat (nat_of_digits (ip @ fp)) * pow10 (e - int (length fp))), s4)))"

definition lower_char :: "char \<Rightarrow> char" where
  "lower_char c = (if 65 \<le> cp c \<and> cp c \<le> 90 then char_of (cp c + 32) else c)"

definition match_ci :: "string \<Rightarrow> string \<Rightarrow> bool" where
  \<comment> \<open>the text starts with the lower-case word, letter case ignored\<close>
  "match_ci w s = (length w \<le> length s \<and> map lower_char (take (length w) s) = w)"

definition parse_inf_or_nan :: "string \<Rightarrow> (pyfloat \<times> string) option" where
  "parse_inf_or_nan s0 =
     (let (neg, s) = take_sign s0
      in if match_ci ''inf'' s then
           Some (if neg then NegInf else PosInf,
                 if match_ci ''inity'' (drop 3 s) then drop 8 s else drop 3 s)
         else if match_ci ''nan'' s then Some (NaN, drop 3 s)
         else None)"

definition ascii_strtod :: "string \<Rightarrow> (pyfloat \<times> string) option" where
  "ascii_strtod s = (case dg_strtod s of Some r \<Rightarrow> Some r | None \<Rightarrow> parse_inf_or_nan s)"

definition float_from_string_inner :: "string \<Rightarrow> pyfloat option" where
  "float_from_string_inner s =
     (case ascii_strtod s of None \<Rightarrow> None | Some (x, rest) \<Rightarrow> if rest = [] then Some x else None)"

definition float_of_string :: "string \<Rightarrow> pyfloat option" where
  \<comment> \<open>\<open>float(s)\<close> for a \<open>str\<close>; \<open>None\<close> stands for the \<open>ValueError\<close>\<close>
  "float_of_string v =
     (let s = dropWhile c_isspace (to_ascii v)
      in if s = [] then None
         else (let t = rev (dropWhile c_isspace (rev s))
               in case underscores (CHR 0x00) t of
                    None \<Rightarrow> None
                  | Some u \<Rightarrow> float_from_string_inner u))"

definition parse_price :: "string \<Rightarrow> pyfloat option" where
  "parse_price v = float_of_string v"

section \<open>Row validator\<close>

record flight =
  flight_id :: string
  origin :: string
  destination :: string
  departure_datetime :: string
  arrival_datetime :: string
  price :: pyfloat

definition arrow :: string where
  \<comment> \<open>the character U+2192 of the message, the only one beyond the 8-bit range, as its three UTF-8 bytes\<close>
  "arrow = [CHR 0xE2, CHR 0x86, CHR 0x92]"

definition diagnostic :: "int \<Rightarrow> string \<Rightarrow> string list \<Rightarrow> string" where
  \<comment> \<open>the f-string of both invalid returns\<close>
  "diagnostic line_no original_line reasons =
     ''Line '' @ str_int line_no @ '': '' @ original_line @ '' '' @ arrow @ '' '' @ join '', '' reasons"

definition validate_row :: "string list \<Rightarrow> int \<Rightarrow> string \<Rightarrow> bool \<times> flight option \<times> string" where
  \<comment> \<open>\<open>row\<close> is the parameter \<open>fields\<close> of the source\<close>
  "validate_row row line_no original_line =
     (if length row \<noteq> 6 then
        (False, None, diagnostic line_no original_line [''missing required fields''])
      else
        (let fid = strip (row ! 0);
             orig = strip (row ! 1);
             dest = strip (row ! 2);
             dep_str = strip (row ! 3);
             arr_str = strip (row ! 4);
             price_str = strip (row ! 5);
             reasons = [];
             reasons = reasons @
               (if fid = [] then [''missing flight_id field'']
                else if \<not> is_valid_flight_id fid then
                  (if 8 < length fid then [''flight_id too long (more than 8 characters)'']
                   else [''invalid flight_id format''])
                else []);
             reasons = reasons @
               (if orig = [] then [''missing origin field'']
                else if \<not> is_valid_airport_code orig then [''invalid origin code'']
                else []);
             reasons = reasons @
               (if dest = [] then [''missing destination field'']
                else if \<not> is_valid_airport_code dest then [''invalid destination code'']
                else []);
             dep_dt = parse_datetime dep_str;
             arr_dt = parse_datetime arr_str;
             reasons = reasons @
               (if dep_dt = None \<and> arr_dt = None then [''invalid date format'']
                else (if dep_dt = None then [''invalid departure datetime''] else [])
                   @ (if arr_dt = None then [''invalid arrival datetime''] else []));
             reasons = reasons @
               (case (dep_dt, arr_dt) of
                  (Some d, Some a) \<Rightarrow> if a \<le> d then [''arrival before departure''] else []
                | _ \<Rightarrow> []);
             pr = parse_price price_str;
             reasons = reasons @
               (case pr of
                  None \<Rightarrow> [''invalid price value'']
                | Some p \<Rightarrow>
                    if float_lt p (Fin 0) then [''negative price value'']
                    else if float_eq p (Fin 0) then [''price must be positive'']
                    else [])
         in if reasons \<noteq> [] then (False, None, diagnostic line_no original_line reasons)
            else case pr of
                   Some p \<Rightarrow>
                     (True,
                      Some \<lparr>flight_id = fid, origin = orig, destination = dest,
                            departure_datetime = dep_str, arrival_datetime = arr_str, price = p\<rparr>,
                      [])
                 | None \<Rightarrow> (False, None, diagnostic line_no original_line reasons)))"

section \<open>Query matcher and query runner\<close>

text \<open>
  A query is the \<open>dict\<close> that \<open>json.load\<close> built from a JSON object: a map from keys to
  JSON values. \<open>str\<close> of a string, an integer, a Boolean and \<open>None\<close> is written out; the
  \<open>repr\<close> that \<open>str\<close> uses for a float, a list and a dict is the parameter \<open>repr\<close>.
\<close>

datatype json = JNull | JBool bool | JInt int | JFloat pyfloat | JStr string
  | JArr "json list" | JObj "(string \<times> json) list"

datatype error = TypeError | OverflowError | ValueError string | OSError | JSONDecodeError

type_synonym query = "string \<rightharpoonup> json"

definition py_str :: "(json \<Rightarrow> string) \<Rightarrow> json \<Rightarrow> string" where
  "py_str repr v =
     (case v of
        JStr s \<Rightarrow> s
      | JInt i \<Rightarrow> str_int i
      | JBool b \<Rightarrow> (if b then ''True'' else ''False'')
      | JNull \<Rightarrow> ''None''
      | _ \<Rightarrow> repr v)"

definition flight_get :: "flight \<Rightarrow> string \<Rightarrow> json" where
  \<comment> \<open>\<open>flight.get(key)\<close> on the dict of a flight record; \<open>JNull\<close> is \<open>None\<close>\<close>
  "flight_get f key =
     (if key = ''flight_id'' then JStr (flight_id f)
      else if key = ''origin'' then JStr (origin f)
      else if key = ''destination'' then JStr (destination f)
      else if key = ''departure_datetime'' then JStr (departure_datetime f)
      else if key = ''arrival_datetime'' then JStr (arrival_datetime f)
      else if key = ''price'' then JFloat (price f)
      else JNull)"

fun exact_matches :: "(json \<Rightarrow> string) \<Rightarrow> flight \<Rightarrow> query \<Rightarrow> string list \<Rightarrow> bool" where
  \<comment> \<open>the loop over the three keys; \<open>False\<close> is its \<open>return False\<close>\<close>
  "exact_matches repr f q [] = True"
| "exact_matches repr f q (key # keys) =
     (case q key of
        None \<Rightarrow> exact_matches repr f q keys
      | Some v \<Rightarrow>
          if py_str repr (flight_get f key) \<noteq> py_str repr v then False
          else exact_matches repr f q keys)"

definition parse_datetime_any :: "json \<Rightarrow> error + datetime option" where
  \<comment> \<open>\<open>parse_datetime\<close> called on a value of any type: \<open>strptime\<close> raises \<open>TypeError\<close>
      on a value that is not a \<open>str\<close>, and only \<open>ValueError\<close> is caught\<close>
  "parse_datetime_any v = (case v of JStr s \<Rightarrow> Inr (parse_datetime s) | _ \<Rightarrow> Inl TypeError)"

definition float_of_int_py :: "int \<Rightarrow> error + pyfloat" where
  \<comment> \<open>\<open>float\<close> of an \<open>int\<close>: correctly rounded, \<open>OverflowError\<close> beyond the range\<close>
  "float_of_int_py i =
     (if i = 0 then Inr (Fin 0)
      else case double_of_pos (of_int \<bar>i\<bar>) of
             None \<Rightarrow> Inl OverflowError
           | Some r \<Rightarrow> Inr (Fin (if i < 0 then - r else r)))"

definition py_float :: "json \<Rightarrow> error + pyfloat" where
  \<comment> \<open>\<open>float(x)\<close>\<close>
  "py_float v =
     (case v of
        JFloat x \<Rightarrow> Inr x
      | JInt i \<Rightarrow> float_of_int_py i
      | JBool b \<Rightarrow> Inr (Fin (if b then 1 else 0))
      | JStr s \<Rightarrow> (case float_of_string s of None \<Rightarrow> Inl (ValueError ''could not convert string to float'') | Some x \<Rightarrow> Inr x)
      | _ \<Rightarrow> Inl TypeError)"

definition departure_filter :: "flight \<Rightarrow> query \<Rightarrow> error + bool" where
  \<comment> \<open>the block on \<open>departure_datetime\<close>; \<open>Inr False\<close> is its \<open>return False\<close>\<close>
  "departure_filter f q =
     (case q ''departure_datetime'' of
        None \<Rightarrow> Inr True
      | Some v \<Rightarrow>
          (case parse_datetime_any v of
             Inl e \<Rightarrow> Inl e
           | Inr None \<Rightarrow> Inr False
           | Inr (Some q_dep) \<Rightarrow>
               (case parse_datetime (departure_datetime f) of
                  None \<Rightarrow> Inr False
                | Some f_dep \<Rightarrow> if f_dep < q_dep then Inr False else Inr True)))"

definition arrival_filter :: "flight \<Rightarrow> query \<Rightarrow> error + bool" where
  "arrival_filter f q =
     (case q ''arrival_datetime'' of
        None \<Rightarrow> Inr True
      | Some v \<Rightarrow>
          (case parse_datetime_any v of
             Inl e \<Rightarrow> Inl e
           | Inr None \<Rightarrow> Inr False
           | Inr (Some q_arr) \<Rightarrow>
               (case parse_datetime (arrival_datetime f) of
                  None \<Rightarrow> Inr False
                | Some f_arr \<Rightarrow> if q_arr < f_arr then Inr False else Inr True)))"

definition price_filter :: "flight \<Rightarrow> query \<Rightarrow> error + bool" where
  \<comment> \<open>\<open>TypeError\<close> and \<open>ValueError\<close> of \<open>float(query["price"])\<close> are caught, \<open>OverflowError\<close> is not\<close>
  "price_filter f q =
     (case q ''price'' of
        None \<Rightarrow> Inr True
      | Some v \<Rightarrow>
          (case py_float v of
             Inl TypeError \<Rightarrow> Inr False
           | Inl (ValueError m) \<Rightarrow> Inr False
           | Inl e \<Rightarrow> Inl e
           | Inr q_price \<Rightarrow> if float_gt (price f) q_price then Inr False else Inr True))"

definition flight_matches_query :: "(json \<Rightarrow> string) \<Rightarrow> flight \<Rightarrow> query \<Rightarrow> error + bool" where
  "flight_matches_query repr f q =
     (if \<not> exact_matches repr f q [''flight_id'', ''origin'', ''destination''] then Inr False
      else case departure_filter f q of
             Inl e \<Rightarrow> Inl e
           | Inr False \<Rightarrow> Inr False
           | Inr True \<Rightarrow>
               (case arrival_filter f q of
                  Inl e \<Rightarrow> Inl e
                | Inr False \<Rightarrow> Inr False
                | Inr True \<Rightarrow>
                    (case price_filter f q of
                       Inl e \<Rightarrow> Inl e
                     | Inr False \<Rightarrow> Inr False
                     | Inr True \<Rightarrow> Inr True)))"

fun matching_flights :: "(json \<Rightarrow> string) \<Rightarrow> flight list \<Rightarrow> query \<Rightarrow> error + flight list" where
  \<comment> \<open>the list comprehension; an exception of the matcher ends it\<close>
  "matching_flights repr [] q = Inr []"
| "matching_flights repr (f # fs) q =
     (case flight_matches_query repr f q of
        Inl e \<Rightarrow> Inl e
      | Inr b \<Rightarrow>
          (case matching_flights repr fs q of
             Inl e \<Rightarrow> Inl e
           | Inr ms \<Rightarrow> Inr (if b then f # ms else ms)))"

record response =
  query :: query
  matches :: "flight list"

fun run_queries_on_db :: "(json \<Rightarrow> string) \<Rightarrow> flight list \<Rightarrow> query list \<Rightarrow> error + response list" where
  "run_queries_on_db repr flights [] = Inr []"
| "run_queries_on_db repr flights (q # qs) =
     (case matching_flights repr flights q of
        Inl e \<Rightarrow> Inl e
      | Inr ms \<Rightarrow>
          (case run_queries_on_db repr flights qs of
             Inl e \<Rightarrow> Inl e
           | Inr rs \<Rightarrow> Inr (\<lparr>query = q, matches = ms\<rparr> # rs)))"

section \<open>Database store\<close>

text \<open>
  The file system is a map from paths to file contents. The decoder of the \<open>json\<close> module is
  the parameter \<open>json_load\<close>: it gives the decoded value of a text, or \<open>None\<close> for a text that
  is not JSON.
\<close>

type_synonym filesystem = "string \<rightharpoonup> string"

definition isinstance_list :: "json \<Rightarrow> bool" where
  "isinstance_list data = (case data of JArr xs \<Rightarrow> True | _ \<Rightarrow> False)"

definition load_db_json :: "(string \<Rightarrow> json option) \<Rightarrow> filesystem \<Rightarrow> string \<Rightarrow> error + json" where
  "load_db_json json_load fs path =
     (case fs path of
        None \<Rightarrow> Inl OSError
      | Some text \<Rightarrow>
          (case json_load text of
             None \<Rightarrow> Inl JSONDecodeError
           | Some data \<Rightarrow>
               if \<not> isinstance_list data
               then Inl (ValueError ''JSON database must be a list of flight objects'')
               else Inr data))"

section \<open>The tests of the row validator as a list\<close>

text \<open>
  The tests that \<open>validate_row\<close> makes on a row of 6 fields, each with the reason it appends,
  in the order of the code. The conditions are those of the code (for the price: unparsable,
  less than 0, equal to 0), not the constraints of the data model; the list serves the proofs
  about \<open>validate_row\<close>.
\<close>

definition row_checks :: "string list \<Rightarrow> (bool \<times> string) list" where
  "row_checks row =
     (let fid = strip (row ! 0); orig = strip (row ! 1); dest = strip (row ! 2);
          dep = parse_datetime (strip (row ! 3)); arr = parse_datetime (strip (row ! 4));
          pr = parse_price (strip (row ! 5))
      in [(fid = [], ''missing flight_id field''),
          (fid \<noteq> [] \<and> \<not> is_valid_flight_id fid \<and> 8 < length fid, ''flight_id too long (more than 8 characters)''),
          (fid \<noteq> [] \<and> \<not> is_valid_flight_id fid \<and> length fid \<le> 8, ''invalid flight_id format''),
          (orig = [], ''missing origin field''),
          (orig \<noteq> [] \<and> \<not> is_valid_airport_code orig, ''invalid origin code''),
          (dest = [], ''missing destination field''),
          (dest \<noteq> [] \<and> \<not> is_valid_airport_code dest, ''invalid destination code''),
          (dep = None \<and> arr = None, ''invalid date format''),
          (dep = None \<and> arr \<noteq> None, ''invalid departure datetime''),
          (dep \<noteq> None \<and> arr = None, ''invalid arrival datetime''),
          (dep \<noteq> None \<and> arr \<noteq> None \<and> the arr \<le> the dep, ''arrival before departure''),
          (pr = None, ''invalid price value''),
          (pr \<noteq> None \<and> float_lt (the pr) (Fin 0), ''negative price value''),
          (pr \<noteq> None \<and> float_eq (the pr) (Fin 0), ''price must be positive'')])"

definition row_reasons :: "string list \<Rightarrow> string list" where
  "row_reasons row = map snd (filter fst (row_checks row))"

section \<open>The strict formats of the specification\<close>



section \<open>Row validator: the reasons it reports\<close>

lemma float_lt_eq_excl: "float_lt p q \<Longrightarrow> \<not> float_eq p q"
  by (auto simp: float_lt_def float_eq_def)

lemma validate_row_six:
  assumes "length row = 6"
  shows "validate_row row n orig =
     (if row_reasons row \<noteq> [] then (False, None, diagnostic n orig (row_reasons row))
      else (True,
            Some \<lparr>flight_id = strip (row ! 0), origin = strip (row ! 1), destination = strip (row ! 2),
                  departure_datetime = strip (row ! 3), arrival_datetime = strip (row ! 4),
                  price = the (parse_price (strip (row ! 5)))\<rparr>, []))"
proof -
  define fid where "fid = strip (row ! 0)"
  define orig' where "orig' = strip (row ! 1)"
  define dest where "dest = strip (row ! 2)"
  define dep where "dep = parse_datetime (strip (row ! 3))"
  define arr where "arr = parse_datetime (strip (row ! 4))"
  define pr where "pr = parse_price (strip (row ! 5))"
  define r1 where "r1 = (if fid = [] then [''missing flight_id field'']
                else if \<not> is_valid_flight_id fid then
                  (if 8 < length fid then [''flight_id too long (more than 8 characters)'']
                   else [''invalid flight_id format''])
                else [])"
  define r2 where "r2 = (if orig' = [] then [''missing origin field'']
                else if \<not> is_valid_airport_code orig' then [''invalid origin code'']
                else [])"
  define r3 where "r3 = (if dest = [] then [''missing destination field'']
                else if \<not> is_valid_airport_code dest then [''invalid destination code'']
                else [])"
  define r4 where "r4 = (if dep = None \<and> arr = None then [''invalid date format'']
                else (if dep = None then [''invalid departure datetime''] else [])
                   @ (if arr = None then [''invalid arrival datetime''] else []))"
  define r5 where "r5 = (case (dep, arr) of
                  (Some d, Some a) \<Rightarrow> if a \<le> d then [''arrival before departure''] else []
                | _ \<Rightarrow> [])"
  define r6 where "r6 = (case pr of
                  None \<Rightarrow> [''invalid price value'']
                | Some p \<Rightarrow>
                    if float_lt p (Fin 0) then [''negative price value'']
                    else if float_eq p (Fin 0) then [''price must be positive'']
                    else [])"
  have v: "validate_row row n orig =
     (if r1 @ r2 @ r3 @ r4 @ r5 @ r6 \<noteq> [] then (False, None, diagnostic n orig (r1 @ r2 @ r3 @ r4 @ r5 @ r6))
      else case pr of Some p \<Rightarrow> (True,
            Some \<lparr>flight_id = fid, origin = orig', destination = dest,
                  departure_datetime = strip (row ! 3), arrival_datetime = strip (row ! 4),
                  price = p\<rparr>, [])
          | None \<Rightarrow> (False, None, diagnostic n orig (r1 @ r2 @ r3 @ r4 @ r5 @ r6)))"
    unfolding validate_row_def Let_def r1_def r2_def r3_def r4_def r5_def r6_def
      fid_def orig'_def dest_def dep_def arr_def pr_def
    using assms by (simp only: append_Nil append_assoc simp_thms if_False)
  have s: "row_reasons row = r1 @ r2 @ r3 @ r4 @ r5 @ r6"
  proof -
    have b1: "map snd (filter fst [(fid = [], ''missing flight_id field''),
          (fid \<noteq> [] \<and> \<not> is_valid_flight_id fid \<and> 8 < length fid, ''flight_id too long (more than 8 characters)''),
          (fid \<noteq> [] \<and> \<not> is_valid_flight_id fid \<and> length fid \<le> 8, ''invalid flight_id format'')]) = r1"
      by (simp add: r1_def)
    have b2: "map snd (filter fst [(orig' = [], ''missing origin field''),
          (orig' \<noteq> [] \<and> \<not> is_valid_airport_code orig', ''invalid origin code'')]) = r2"
      by (simp add: r2_def)
    have b3: "map snd (filter fst [(dest = [], ''missing destination field''),
          (dest \<noteq> [] \<and> \<not> is_valid_airport_code dest, ''invalid destination code'')]) = r3"
      by (simp add: r3_def)
    have b4: "map snd (filter fst [(dep = None \<and> arr = None, ''invalid date format''),
          (dep = None \<and> arr \<noteq> None, ''invalid departure datetime''),
          (dep \<noteq> None \<and> arr = None, ''invalid arrival datetime'')]) = r4"
      by (simp add: r4_def)
    have b5: "map snd (filter fst [(dep \<noteq> None \<and> arr \<noteq> None \<and> the arr \<le> the dep, ''arrival before departure'')]) = r5"
      by (simp add: r5_def split: option.splits)
    have b6: "map snd (filter fst [(pr = None, ''invalid price value''),
          (pr \<noteq> None \<and> float_lt (the pr) (Fin 0), ''negative price value''),
          (pr \<noteq> None \<and> float_eq (the pr) (Fin 0), ''price must be positive'')]) = r6"
      by (simp add: r6_def float_lt_eq_excl split: option.splits)
    have "row_reasons row =
       map snd (filter fst ([(fid = [], ''missing flight_id field''),
          (fid \<noteq> [] \<and> \<not> is_valid_flight_id fid \<and> 8 < length fid, ''flight_id too long (more than 8 characters)''),
          (fid \<noteq> [] \<and> \<not> is_valid_flight_id fid \<and> length fid \<le> 8, ''invalid flight_id format'')]
        @ [(orig' = [], ''missing origin field''),
          (orig' \<noteq> [] \<and> \<not> is_valid_airport_code orig', ''invalid origin code'')]
        @ [(dest = [], ''missing destination field''),
          (dest \<noteq> [] \<and> \<not> is_valid_airport_code dest, ''invalid destination code'')]
        @ [(dep = None \<and> arr = None, ''invalid date format''),
          (dep = None \<and> arr \<noteq> None, ''invalid departure datetime''),
          (dep \<noteq> None \<and> arr = None, ''invalid arrival datetime'')]
        @ [(dep \<noteq> None \<and> arr \<noteq> None \<and> the arr \<le> the dep, ''arrival before departure'')]
        @ [(pr = None, ''invalid price value''),
          (pr \<noteq> None \<and> float_lt (the pr) (Fin 0), ''negative price value''),
          (pr \<noteq> None \<and> float_eq (the pr) (Fin 0), ''price must be positive'')]))"
      unfolding row_reasons_def row_checks_def Let_def fid_def orig'_def dest_def dep_def arr_def pr_def
      by (simp only: append_Cons append_Nil)
    also have "\<dots> = r1 @ r2 @ r3 @ r4 @ r5 @ r6"
      unfolding filter_append map_append b1 b2 b3 b4 b5 b6 ..
    finally show ?thesis .
  qed
  have p: "r6 = [] \<Longrightarrow> pr \<noteq> None"
    by (cases pr) (simp_all add: r6_def)
  show ?thesis
    unfolding v s [symmetric] fid_def [symmetric] orig'_def [symmetric] dest_def [symmetric] pr_def [symmetric]
    using p by (auto simp: s split: option.splits)
qed

lemmas char_class_defs = cp_def is_digit_def digit_val_def py_isspace_def py_isupper_char_def
  py_islower_char_def py_isalpha_char_def py_isalnum_char_def c_isspace_def

lemmas rx_defs = rx_lit_def rx_one_def rx_two_def any_digit_def rx_Y_def rx_m_def rx_d_def rx_H_def rx_M_def

lemmas float_parse_defs = parse_price_def float_of_string_def to_ascii_def float_from_string_inner_def
  ascii_strtod_def dg_strtod_def take_sign_def take_exponent_def nat_of_digits_def double_of_signed_def
  pow10_def parse_inf_or_nan_def match_ci_def lower_char_def

lemma row_reasons_Nil_iff:
  "row_reasons row = [] \<longleftrightarrow>
     is_valid_flight_id (strip (row ! 0)) \<and> is_valid_airport_code (strip (row ! 1))
     \<and> is_valid_airport_code (strip (row ! 2))
     \<and> (\<exists>d a. parse_datetime (strip (row ! 3)) = Some d \<and> parse_datetime (strip (row ! 4)) = Some a \<and> d < a)
     \<and> (\<exists>p. parse_price (strip (row ! 5)) = Some p \<and> \<not> float_lt p (Fin 0) \<and> \<not> float_eq p (Fin 0))"
proof -
  have e: "is_valid_flight_id v \<Longrightarrow> v \<noteq> []" "is_valid_airport_code v \<Longrightarrow> v \<noteq> []" for v
    by (auto simp: is_valid_flight_id_def is_valid_airport_code_def)
  have n: "map snd (filter fst cs) = [] \<longleftrightarrow> list_all (\<lambda>c. \<not> fst c) cs" for cs :: "(bool \<times> string) list"
    by (induction cs) auto
  show ?thesis
    unfolding row_reasons_def row_checks_def Let_def n
    by (cases "parse_datetime (strip (row ! 3))"; cases "parse_datetime (strip (row ! 4))";
        cases "parse_price (strip (row ! 5))") (use e in \<open>auto simp: not_le\<close>)
qed

lemma strip_examples:
  "strip ''AB12'' = ''AB12''" "strip ''JFK'' = ''JFK''" "strip ''jfk'' = ''jfk''" "strip ''LAX'' = ''LAX''"
  "strip ''2024-05-01 10:00'' = ''2024-05-01 10:00''" "strip ''2024-05-01 12:00'' = ''2024-05-01 12:00''"
  "strip ''nan'' = ''nan''" "strip ''0'' = ''0''"
  by (simp_all add: strip_def char_class_defs)

lemma validator_examples:
  "is_valid_flight_id ''AB12''" "is_valid_airport_code ''JFK''" "is_valid_airport_code ''LAX''"
  "\<not> is_valid_airport_code ''jfk''"
  by (simp_all add: is_valid_flight_id_def is_valid_airport_code_def py_isalnum_def py_isalpha_def
        py_isupper_def char_class_defs)

lemma parse_datetime_examples:
  "parse_datetime ''2024-05-01 10:00'' = Some (2024, 5, 1, 10, 0)"
  "parse_datetime ''2024-05-01 12:00'' = Some (2024, 5, 1, 12, 0)"
  by (simp_all add: parse_datetime_def strptime_def format_regex_def rx_defs char_class_defs
        days_in_month_def is_leap_def)

lemma parse_price_nan: "parse_price ''nan'' = Some NaN"
  by (simp add: float_parse_defs char_class_defs)

lemma parse_price_zero: "parse_price ''0'' = Some (Fin 0)"
  by (simp add: float_parse_defs char_class_defs)

lemma nth_examples:
  "[a, b, c, d, e, f] ! 0 = a" "[a, b, c, d, e, f] ! 1 = b" "[a, b, c, d, e, f] ! 2 = c"
  "[a, b, c, d, e, f] ! 3 = d" "[a, b, c, d, e, f] ! 4 = e" "[a, b, c, d, e, f] ! 5 = f"
  by simp_all

lemma ex_row_reasons:
  "row_reasons [''AB12'', ''jfk'', ''LAX'', ''2024-05-01 10:00'', ''2024-05-01 12:00'', ''0'']
     = [''invalid origin code'', ''price must be positive'']"
  unfolding row_reasons_def row_checks_def Let_def nth_examples strip_examples
    parse_datetime_examples parse_price_zero
  by (simp add: validator_examples float_lt_def float_eq_def)

lemma nan_row_reasons:
  "row_reasons [''AB12'', ''JFK'', ''LAX'', ''2024-05-01 10:00'', ''2024-05-01 12:00'', ''nan''] = []"
  unfolding row_reasons_Nil_iff nth_examples strip_examples parse_datetime_examples parse_price_nan
  by (simp add: validator_examples float_lt_def float_eq_def)

lemma str_int_examples: "str_int 2 = ''2''" "str_int 4 = ''4''"
  by code_simp+

text \<open>
  \<^bold>\<open>C5.\<close> A row whose number of fields is not 6 is rejected at once: the result is invalid,
  carries no flight record, and its message has the single reason
  \<open>missing required fields\<close> and nothing about any field.
\<close>

theorem validate_row_wrong_field_count:
  assumes "length row \<noteq> 6"
  shows "validate_row row line_no original_line =
           (False, None,
            ''Line '' @ str_int line_no @ '': '' @ original_line @ '' '' @ arrow @ '' missing required fields'')"
  using assms by (simp add: validate_row_def diagnostic_def)

theorem validate_row_wrong_field_count_witness:
  "length [''XY1'', ''JFK'', ''LAX'', ''2024-05-01 10:00'', ''100''] \<noteq> 6
   \<and> validate_row [''XY1'', ''JFK'', ''LAX'', ''2024-05-01 10:00'', ''100''] 4 ''XY1,JFK,LAX,2024-05-01 10:00,100''
       = (False, None, ''Line 4: XY1,JFK,LAX,2024-05-01 10:00,100 '' @ arrow @ '' missing required fields'')"
proof -
  have h: "length [''XY1'', ''JFK'', ''LAX'', ''2024-05-01 10:00'', ''100''] \<noteq> 6" by simp
  show ?thesis
    using validate_row_wrong_field_count [OF h, of 4 "''XY1,JFK,LAX,2024-05-01 10:00,100''"] h
    by (simp add: str_int_examples)
qed

lemma validate_row_reports_failed_checks:
  assumes "length row = 6" and "row_reasons row \<noteq> []"
  shows "validate_row row line_no original_line =
           (False, None,
            ''Line '' @ str_int line_no @ '': '' @ original_line @ '' '' @ arrow @ '' ''
              @ join '', '' (row_reasons row))"
  using assms by (simp add: validate_row_six diagnostic_def)

lemma strip_jfk_row_reasons:
  "row_reasons [''AB12'', ''jfk'', ''LAX'', ''2024-05-01 10:00'', ''2024-05-01 12:00'', ''nan'']
     = [''invalid origin code'']"
  unfolding row_reasons_def row_checks_def Let_def nth_examples strip_examples
    parse_datetime_examples parse_price_nan
  by (simp add: validator_examples float_lt_def float_eq_def)

text \<open>
  \<^bold>\<open>C2.\<close> The claim: for a row of 6 fields with at least one violation, the message lists
  the reasons of all the violations. The row below violates two constraints: the origin is in
  lower case, and the price \<open>nan\<close> parses to a NaN, which is not greater than 0. The message
  has the reason of the origin only: the tests on the price (less than 0, equal to 0) are both
  false for a NaN, and no reason is appended for it.
\<close>

theorem validate_row_omits_nan_price_reason:
  "validate_row [''AB12'', ''jfk'', ''LAX'', ''2024-05-01 10:00'', ''2024-05-01 12:00'', ''nan''] 2
        ''AB12,jfk,LAX,2024-05-01 10:00,2024-05-01 12:00,nan''
     = (False, None,
        ''Line 2: AB12,jfk,LAX,2024-05-01 10:00,2024-05-01 12:00,nan '' @ arrow @ '' invalid origin code'')
   \<and> parse_price (strip ''nan'') = Some NaN \<and> \<not> float_gt NaN (Fin 0)"
  by (simp add: validate_row_six strip_jfk_row_reasons diagnostic_def str_int_examples strip_examples
        parse_price_nan float_gt_def float_lt_def)

text \<open>
  \<^bold>\<open>C1.\<close> The claim: a flight record is built only if, among the other constraints, the
  price parses as a number greater than 0. The row below has the price \<open>nan\<close>, which
  \<open>float\<close> parses to a NaN; a NaN is neither less than 0 nor equal to 0, so no reason is
  recorded and the record is built, with a price that is not greater than 0.
\<close>

theorem validate_row_accepts_nan_price:
  "validate_row [''AB12'', ''JFK'', ''LAX'', ''2024-05-01 10:00'', ''2024-05-01 12:00'', ''nan''] 2
        ''AB12,JFK,LAX,2024-05-01 10:00,2024-05-01 12:00,nan''
     = (True,
        Some \<lparr>flight_id = ''AB12'', origin = ''JFK'', destination = ''LAX'',
              departure_datetime = ''2024-05-01 10:00'', arrival_datetime = ''2024-05-01 12:00'',
              price = NaN\<rparr>, [])
   \<and> parse_price ''nan'' = Some NaN \<and> \<not> float_gt NaN (Fin 0)"
  by (simp add: validate_row_six nan_row_reasons strip_examples parse_price_nan float_gt_def float_lt_def)

lemma double_of_pos_100: "double_of_pos 100 = Some 100"
  by (simp add: double_of_pos_def binade_def compute_floorlog Let_def pow2_def round_half_even_def)

lemma parse_price_100: "parse_price ''100'' = Some (Fin 100)"
  by (simp add: float_parse_defs char_class_defs double_of_pos_100)

lemma strip_100: "strip ''100'' = ''100''"
  by (simp add: strip_def char_class_defs)

lemma good_row_reasons:
  "row_reasons [''AB12'', ''JFK'', ''LAX'', ''2024-05-01 10:00'', ''2024-05-01 12:00'', ''100''] = []"
  unfolding row_reasons_Nil_iff nth_examples strip_examples strip_100 parse_datetime_examples parse_price_100
  by (simp add: validator_examples float_lt_def float_eq_def)

lemma good_row_valid:
  "validate_row [''AB12'', ''JFK'', ''LAX'', ''2024-05-01 10:00'', ''2024-05-01 12:00'', ''100''] n t
     = (True,
        Some \<lparr>flight_id = ''AB12'', origin = ''JFK'', destination = ''LAX'',
              departure_datetime = ''2024-05-01 10:00'', arrival_datetime = ''2024-05-01 12:00'',
              price = Fin 100\<rparr>, [])"
  by (simp add: validate_row_six good_row_reasons strip_examples strip_100 parse_price_100)

lemma validate_row_valid_iff:
  "validate_row row n t = (True, Some f, m) \<longleftrightarrow>
     length row = 6 \<and> row_reasons row = [] \<and> m = []
     \<and> f = \<lparr>flight_id = strip (row ! 0), origin = strip (row ! 1), destination = strip (row ! 2),
             departure_datetime = strip (row ! 3), arrival_datetime = strip (row ! 4),
             price = the (parse_price (strip (row ! 5)))\<rparr>"
proof (cases "length row = 6")
  case True
  then show ?thesis by (auto simp: validate_row_six)
next
  case False
  then show ?thesis by (simp add: validate_row_def)
qed

section \<open>Validated records in the query matcher\<close>

text \<open>
  \<^bold>\<open>C10.\<close> The departure and arrival strings stored in a record that the row validator
  built parse again, so in the matcher the branch that returns false because the record's own
  timestamp does not parse is never taken for such a record: with a query timestamp that
  parses, each date filter is decided by the comparison alone.
\<close>

theorem validated_record_timestamps_reparse:
  assumes "validate_row row line_no original_line = (True, Some f, msg)"
  shows "\<exists>d a. parse_datetime (departure_datetime f) = Some d
           \<and> parse_datetime (arrival_datetime f) = Some a
           \<and> (\<forall>q s qd. q ''departure_datetime'' = Some (JStr s) \<longrightarrow> parse_datetime s = Some qd
                  \<longrightarrow> departure_filter f q = Inr (\<not> d < qd))
           \<and> (\<forall>q s qa. q ''arrival_datetime'' = Some (JStr s) \<longrightarrow> parse_datetime s = Some qa
                  \<longrightarrow> arrival_filter f q = Inr (\<not> qa < a))"
proof -
  from assms have r: "row_reasons row = []"
    and f: "departure_datetime f = strip (row ! 3)" "arrival_datetime f = strip (row ! 4)"
    by (simp_all add: validate_row_valid_iff)
  from r obtain d a where da: "parse_datetime (strip (row ! 3)) = Some d" "parse_datetime (strip (row ! 4)) = Some a"
    unfolding row_reasons_Nil_iff by blast
  show ?thesis
    by (rule exI [of _ d], rule exI [of _ a])
       (simp add: f da departure_filter_def arrival_filter_def parse_datetime_any_def)
qed

theorem validated_record_timestamps_reparse_witness:
  "validate_row [''AB12'', ''JFK'', ''LAX'', ''2024-05-01 10:00'', ''2024-05-01 12:00'', ''100''] 1 ''x''
     = (True,
        Some \<lparr>flight_id = ''AB12'', origin = ''JFK'', destination = ''LAX'',
              departure_datetime = ''2024-05-01 10:00'', arrival_datetime = ''2024-05-01 12:00'',
              price = Fin 100\<rparr>, [])
   \<and> parse_datetime ''2024-05-01 10:00'' = Some (2024, 5, 1, 10, 0)
   \<and> parse_datetime ''2024-05-01 12:00'' = Some (2024, 5, 1, 12, 0)
   \<and> departure_filter \<lparr>flight_id = ''AB12'', origin = ''JFK'', destination = ''LAX'',
              departure_datetime = ''2024-05-01 10:00'', arrival_datetime = ''2024-05-01 12:00'',
              price = Fin 100\<rparr> [''departure_datetime'' \<mapsto> JStr ''2024-05-01 12:00''] = Inr False"
proof -
  have h: "validate_row [''AB12'', ''JFK'', ''LAX'', ''2024-05-01 10:00'', ''2024-05-01 12:00'', ''100''] 1 ''x''
     = (True,
        Some \<lparr>flight_id = ''AB12'', origin = ''JFK'', destination = ''LAX'',
              departure_datetime = ''2024-05-01 10:00'', arrival_datetime = ''2024-05-01 12:00'',
              price = Fin 100\<rparr>, [])"
    by (rule good_row_valid)
  show ?thesis
    using validated_record_timestamps_reparse [OF h] h
    by (auto simp: parse_datetime_examples)
qed

section \<open>Loading the database\<close>

text \<open>
  \<^bold>\<open>C9.\<close> Once the file is read and decoded, \<open>load\<close> fails with the format error exactly
  when the top level of the document is not a list, and otherwise succeeds with the list as it
  is (the elements of the list are not inspected).
\<close>

theorem load_db_json_top_level_list:
  assumes "fs path = Some contents" and "json_load contents = Some data"
  shows "load_db_json json_load fs path =
           (case data of
              JArr records \<Rightarrow> Inr (JArr records)
            | _ \<Rightarrow> Inl (ValueError ''JSON database must be a list of flight objects''))"
  using assms by (simp add: load_db_json_def isinstance_list_def split: json.splits)

theorem load_db_json_top_level_list_witness:
  "[''db.json'' \<mapsto> ''{}''] ''db.json'' = Some ''{}''
   \<and> (\<lambda>t. if t = ''{}'' then Some (JObj []) else if t = ''[1]'' then Some (JArr [JInt 1]) else None) ''{}'' = Some (JObj [])
   \<and> load_db_json (\<lambda>t. if t = ''{}'' then Some (JObj []) else if t = ''[1]'' then Some (JArr [JInt 1]) else None)
        [''db.json'' \<mapsto> ''{}''] ''db.json''
       = Inl (ValueError ''JSON database must be a list of flight objects'')"
  using load_db_json_top_level_list [where fs = "[''db.json'' \<mapsto> ''{}'']" and path = "''db.json''" and contents = "''{}''"
       and json_load = "\<lambda>t. if t = ''{}'' then Some (JObj []) else if t = ''[1]'' then Some (JArr [JInt 1]) else None"
       and data = "JObj []"]
  by simp

section \<open>Query matcher\<close>

lemma exact_matches_iff:
  "exact_matches repr f q keys \<longleftrightarrow>
     (\<forall>key\<in>set keys. \<forall>v. q key = Some v \<longrightarrow> py_str repr (flight_get f key) = py_str repr v)"
  by (induction keys) (auto split: option.splits)

lemma flight_matches_query_True_iff:
  "flight_matches_query repr f q = Inr True \<longleftrightarrow>
     (\<forall>key\<in>{''flight_id'', ''origin'', ''destination''}. \<forall>v. q key = Some v \<longrightarrow>
        py_str repr (flight_get f key) = py_str repr v)
     \<and> (\<forall>v. q ''departure_datetime'' = Some v \<longrightarrow>
          (\<exists>s q_dep f_dep. v = JStr s \<and> parse_datetime s = Some q_dep
             \<and> parse_datetime (departure_datetime f) = Some f_dep \<and> q_dep \<le> f_dep))
     \<and> (\<forall>v. q ''arrival_datetime'' = Some v \<longrightarrow>
          (\<exists>s q_arr f_arr. v = JStr s \<and> parse_datetime s = Some q_arr
             \<and> parse_datetime (arrival_datetime f) = Some f_arr \<and> f_arr \<le> q_arr))
     \<and> (\<forall>v. q ''price'' = Some v \<longrightarrow>
          (\<exists>q_price. py_float v = Inr q_price \<and> \<not> float_gt (price f) q_price))"
  (is "?lhs \<longleftrightarrow> ?rhs")
proof -
  have d: "departure_filter f q = Inr True \<longleftrightarrow>
     (\<forall>v. q ''departure_datetime'' = Some v \<longrightarrow>
          (\<exists>s q_dep f_dep. v = JStr s \<and> parse_datetime s = Some q_dep
             \<and> parse_datetime (departure_datetime f) = Some f_dep \<and> q_dep \<le> f_dep))"
    by (auto simp: departure_filter_def parse_datetime_any_def not_less split: option.splits json.splits)
  have a: "arrival_filter f q = Inr True \<longleftrightarrow>
     (\<forall>v. q ''arrival_datetime'' = Some v \<longrightarrow>
          (\<exists>s q_arr f_arr. v = JStr s \<and> parse_datetime s = Some q_arr
             \<and> parse_datetime (arrival_datetime f) = Some f_arr \<and> f_arr \<le> q_arr))"
    by (auto simp: arrival_filter_def parse_datetime_any_def not_less split: option.splits json.splits)
  have p: "price_filter f q = Inr True \<longleftrightarrow>
     (\<forall>v. q ''price'' = Some v \<longrightarrow>
          (\<exists>q_price. py_float v = Inr q_price \<and> \<not> float_gt (price f) q_price))"
    by (auto simp: price_filter_def split: option.splits sum.splits error.splits)
  have "flight_matches_query repr f q = Inr True \<longleftrightarrow>
      exact_matches repr f q [''flight_id'', ''origin'', ''destination'']
      \<and> departure_filter f q = Inr True \<and> arrival_filter f q = Inr True \<and> price_filter f q = Inr True"
    by (auto simp: flight_matches_query_def split: sum.splits bool.splits)
  also have "\<dots> \<longleftrightarrow> ?rhs"
    by (simp only: d a p exact_matches_iff list.set ball_simps insert_iff empty_iff simp_thms)
  finally show ?thesis .
qed

lemma unparsable_departure_no_match:
  assumes "q ''departure_datetime'' = Some (JStr s)" and "parse_datetime s = None"
  shows "flight_matches_query repr f q = Inr False"
  using assms by (simp add: flight_matches_query_def departure_filter_def parse_datetime_any_def)

lemma unparsable_arrival_no_match:
  assumes "q ''arrival_datetime'' = Some (JStr s)" and "parse_datetime s = None"
    and "departure_filter f q = Inr b"
  shows "flight_matches_query repr f q = Inr False"
  using assms by (cases b) (simp_all add: flight_matches_query_def arrival_filter_def parse_datetime_any_def)

lemma non_numeric_price_no_match:
  assumes "q ''price'' = Some v" and "py_float v = Inl TypeError \<or> py_float v = Inl (ValueError m)"
    and "departure_filter f q = Inr b" and "arrival_filter f q = Inr b'"
  shows "flight_matches_query repr f q = Inr False"
  using assms by (cases b; cases b') (auto simp: flight_matches_query_def price_filter_def)

lemma matching_flights_no_match:
  assumes "\<And>f. flight_matches_query repr f q = Inr False"
  shows "matching_flights repr flights q = Inr []"
  by (induction flights) (simp_all add: assms)

text \<open>
  \<^bold>\<open>C3.\<close> The claim: the matcher returns true if and only if every recognized key of the
  query passes, the price key passing when the record's price is at most the query's price.
  For the query \<open>{"price": "nan"}\<close> the value converts to a NaN, the test
  \<open>float(flight["price"]) > q_price\<close> is false, and the matcher returns true for a record
  of price 100, although 100 is not at most a NaN.
\<close>
theorem nan_price_query_matches:
  "flight_matches_query repr
     \<lparr>flight_id = ''AB12'', origin = ''JFK'', destination = ''LAX'',
      departure_datetime = ''2024-05-01 10:00'', arrival_datetime = ''2024-05-01 12:00'',
      price = Fin 100\<rparr> [''price'' \<mapsto> JStr ''nan''] = Inr True
   \<and> py_float (JStr ''nan'') = Inr NaN \<and> \<not> float_le (Fin 100) NaN"
proof -
  have n: "float_of_string ''nan'' = Some NaN"
    using parse_price_nan by (simp add: parse_price_def)
  show ?thesis
    by (simp add: flight_matches_query_def departure_filter_def arrival_filter_def price_filter_def
          py_float_def n float_gt_def float_lt_def float_le_def float_eq_def)
qed

text \<open>
  \<^bold>\<open>C6.\<close> The claim: a query whose departure or arrival value does not parse, or whose
  price is not numeric, matches nothing and never raises. A departure value that is not a
  string (here the number 5) makes \<open>strptime\<close> raise \<open>TypeError\<close>, which the \<open>except
  ValueError\<close> of \<open>parse_datetime\<close> does not catch: the query run ends with the exception.
  The price filter, whose \<open>except\<close> names both errors, gives the empty match list for a price
  of \<open>null\<close>.
\<close>
theorem nonstring_datetime_query_raises:
  "run_queries_on_db repr
     [\<lparr>flight_id = ''AB12'', origin = ''JFK'', destination = ''LAX'',
       departure_datetime = ''2024-05-01 10:00'', arrival_datetime = ''2024-05-01 12:00'',
       price = Fin 100\<rparr>] [[''departure_datetime'' \<mapsto> JInt 5]] = Inl TypeError
   \<and> map_sum id (map matches) (run_queries_on_db repr
     [\<lparr>flight_id = ''AB12'', origin = ''JFK'', destination = ''LAX'',
       departure_datetime = ''2024-05-01 10:00'', arrival_datetime = ''2024-05-01 12:00'',
       price = Fin 100\<rparr>] [[''price'' \<mapsto> JNull]]) = Inr [[]]"
  by (simp add: flight_matches_query_def departure_filter_def arrival_filter_def price_filter_def
        parse_datetime_any_def py_float_def)

section \<open>Price parser\<close>










end
